theory Spec2Isabelle
  imports Main
begin

section \<open>Tokens, errors and the parser contract\<close>

text \<open>
  The packages \<^verbatim>\<open>tokens\<close>, \<^verbatim>\<open>parser\<close>, \<^verbatim>\<open>exec\<close>, \<^verbatim>\<open>nodes\<close> and \<^verbatim>\<open>utils\<close> are imported by
  \<^verbatim>\<open>lorem.go\<close> and \<^verbatim>\<open>comment.go\<close> but are not part of the sources at hand. What the two
  files use of them is modelled here from the specification (sections 3, 4.1 and 4.2);
  the two tag modules themselves are translated from their Go text.
\<close>

text \<open>
  Modelled from the spec: the token kinds of \<^verbatim>\<open>tokens\<close> (section 3: integer, bare-name,
  string, symbol, end-marker, ...). \<^verbatim>\<open>Integer\<close> and \<^verbatim>\<open>Name\<close> are the two kinds named in
  \<^verbatim>\<open>lorem.go\<close>; \<^verbatim>\<open>BlockBegin\<close> and \<^verbatim>\<open>BlockEnd\<close> are the tag-open and tag-close markers.
\<close>

datatype TokenType = Integer | Name | String | Symbol | BlockBegin | BlockEnd | Data | EOF

text \<open>
  Modelled from the spec: \<^verbatim>\<open>tokens.Token\<close> (section 3: kind, raw value, line, column).
  The fields \<^verbatim>\<open>Val\<close>, \<^verbatim>\<open>Line\<close> and \<^verbatim>\<open>Col\<close> are the ones the two files read.
\<close>

record Token =
  Typ :: TokenType
  Val :: string
  Line :: int
  Col :: int

text \<open>
  The error kinds of section 7 of the specification. A positioned error carries its
  message and the token it is positioned at (\<open>None\<close> for Go's \<^verbatim>\<open>nil\<close> token pointer);
  an unterminated block carries the name of the marker that was looked for.
\<close>

datatype error =
    MalformedArguments string "Token option"
  | UnterminatedBlock string "Token option"
  | UnknownMode string
  | DuplicateRegistration string

text \<open>
  Modelled from the spec: \<^verbatim>\<open>parser.Parser\<close> (section 4.2 and the design notes of section 9):
  a cursor into a token sequence. A sub-parser is a parser over exactly the argument
  tokens of one tag, with a cursor of its own.
\<close>

record Parser =
  stream :: "Token list"
  cursor :: nat

text \<open>
  Modelled from the spec: \<^verbatim>\<open>current()\<close>, peek without consuming. \<^verbatim>\<open>Current\<close> returns a
  \<^verbatim>\<open>*tokens.Token\<close>; with the cursor at the bound there is no token (\<open>None\<close>).
\<close>

definition Current :: "Parser \<Rightarrow> Token option" where
  "Current p = (if cursor p < length (stream p) then Some (stream p ! cursor p) else None)"

text \<open>
  Modelled from the spec: \<^verbatim>\<open>match(kind)\<close>, consume and return the current token if its
  kind matches, else leave the cursor unchanged and return none.
\<close>

definition Match :: "TokenType \<Rightarrow> Parser \<Rightarrow> Token option \<times> Parser" where
  "Match kind p =
     (case Current p of
        None \<Rightarrow> (None, p)
      | Some t \<Rightarrow> if Typ t = kind then (Some t, p\<lparr>cursor := cursor p + 1\<rparr>) else (None, p))"

text \<open>
  Modelled from the spec: \<^verbatim>\<open>matchName(literal)\<close>, as \<^verbatim>\<open>match\<close> but for a bare-name token
  whose text equals the literal exactly.
\<close>

definition MatchName :: "string \<Rightarrow> Parser \<Rightarrow> Token option \<times> Parser" where
  "MatchName literal p =
     (case Current p of
        None \<Rightarrow> (None, p)
      | Some t \<Rightarrow> if Typ t = Name \<and> Val t = literal
                  then (Some t, p\<lparr>cursor := cursor p + 1\<rparr>) else (None, p))"

text \<open>
  Modelled from the spec: \<^verbatim>\<open>atEnd()\<close>, true iff the cursor has reached the bound.
\<close>

definition End :: "Parser \<Rightarrow> bool" where
  "End p = (length (stream p) \<le> cursor p)"

text \<open>
  Modelled from the spec: \<^verbatim>\<open>error(message, cause)\<close> builds a positioned error carrying
  the current token's line and column and the message. Both call sites in the sources
  pass \<^verbatim>\<open>nil\<close> as second argument, so it is left out. Section 7 files every error a
  tag parser builds this way under \<^verbatim>\<open>MalformedArguments\<close>.
\<close>

definition Error :: "Parser \<Rightarrow> string \<Rightarrow> error" where
  "Error p msg = MalformedArguments msg (Current p)"

text \<open>
  Modelled from the spec: \<^verbatim>\<open>skipUntil(markerName)\<close> advances the outer token stream past
  all tokens until a tag whose name equals the marker is found, discarding everything in
  between, nested tags of other names included; it fails if the end of input is reached
  first, with the error positioned at the point skipping began. The end tag is read as
  the three tokens tag-open, bare name, tag-close. \<open>skip_scan\<close> returns the number of
  tokens up to and including the first end tag.
\<close>

fun skip_scan :: "string \<Rightarrow> Token list \<Rightarrow> nat option" where
  "skip_scan m (a # b # c # ts) =
     (if Typ a = BlockBegin \<and> Typ b = Name \<and> Val b = m \<and> Typ c = BlockEnd
      then Some 3
      else map_option Suc (skip_scan m (b # c # ts)))"
| "skip_scan m ts = None"

definition SkipUntil :: "string \<Rightarrow> Parser \<Rightarrow> error option \<times> Parser" where
  "SkipUntil markerName p =
     (case skip_scan markerName (drop (cursor p) (stream p)) of
        None \<Rightarrow> (Some (UnterminatedBlock markerName (Current p)),
                 p\<lparr>cursor := length (stream p)\<rparr>)
      | Some n \<Rightarrow> (None, p\<lparr>cursor := cursor p + n\<rparr>))"

text \<open>
  The end tag, said without the scan: the tokens at \<open>i\<close>, \<open>i + 1\<close> and \<open>i + 2\<close> of the
  sequence are tag-open, the bare name \<open>m\<close>, tag-close.
\<close>

definition end_tag_at :: "string \<Rightarrow> Token list \<Rightarrow> nat \<Rightarrow> bool" where
  "end_tag_at m ts i =
     (i + 2 < length ts \<and> Typ (ts ! i) = BlockBegin \<and> Typ (ts ! (i + 1)) = Name \<and>
      Val (ts ! (i + 1)) = m \<and> Typ (ts ! (i + 2)) = BlockEnd)"

text \<open>
  Modelled from the spec: \<^verbatim>\<open>exec.AsValue(v).Integer()\<close> at a token of integer kind, the
  matched token's integer value (section 4.3, step 3): the decimal value of a string of
  digits. Go's \<^verbatim>\<open>int\<close> is modelled by \<open>int\<close>; no claim depends on its width.
\<close>

definition is_digit :: "char \<Rightarrow> bool" where
  "is_digit c = ((48::nat) \<le> of_char c \<and> of_char c \<le> (57::nat))"

definition AsInteger :: "string \<Rightarrow> int" where
  "AsInteger s =
     (if s \<noteq> [] \<and> list_all is_digit s
      then foldl (\<lambda>n c. 10 * n + (int (of_char c) - 48)) 0 s
      else 0)"

section \<open>The lorem tag (lorem.go)\<close>

record LoremStmt =
  Location :: "Token option"
  count :: int
  method' :: string
  random :: bool

record CommentStmt =
  Location :: "Token option"

text \<open>
  \<^verbatim>\<open>nodes.Statement\<close> is an interface; the two implementations in the sources are its
  two cases here.
\<close>

text \<open>
  The field \<^verbatim>\<open>method\<close> of the Go struct is \<open>method'\<close> here, \<open>method\<close> being a keyword.
\<close>

datatype Statement = Lorem LoremStmt | Comment CommentStmt

fun Position :: "Statement \<Rightarrow> Token option" where
  "Position (Lorem stmt) = LoremStmt.Location stmt"
| "Position (Comment stmt) = CommentStmt.Location stmt"

text \<open>
  \<^verbatim>\<open>LoremStmt.Execute\<close>. The generator \<^verbatim>\<open>utils.Lorem\<close> and the renderer's \<^verbatim>\<open>WriteString\<close>
  are not in the sources and are parameters: the generator takes the two arguments of
  the call and returns the text or an error, the writer takes the renderer and the text
  and returns its result (a byte count and an error) with the renderer after the write.
  The parameter \<^verbatim>\<open>tag\<close> of the Go method is not used by its body.
\<close>

definition Execute ::
  "(int \<Rightarrow> string \<Rightarrow> error + string) \<Rightarrow> ('r \<Rightarrow> string \<Rightarrow> (int \<times> 'e option) \<times> 'r) \<Rightarrow>
   LoremStmt \<Rightarrow> 'r \<Rightarrow> error option \<times> 'r" where
  "Execute utils_Lorem WriteString stmt r =
     (case utils_Lorem (count stmt) (method' stmt) of
        Inl err \<Rightarrow> (Some err, r)
      | Inr lorem \<Rightarrow> (let (_, r') = WriteString r lorem in (None, r')))"

text \<open>
  \<^verbatim>\<open>loremParser\<close>. The Go function reads the outer parser \<^verbatim>\<open>p\<close> and moves the cursor of
  \<^verbatim>\<open>args\<close>; the model returns the result with both parsers as they are on return.
\<close>

definition loremParser :: "Parser \<Rightarrow> Parser \<Rightarrow> (error + Statement) \<times> Parser \<times> Parser" where
  "loremParser p args =
     (let stmt = \<lparr>LoremStmt.Location = Current p, count = 1, method' = ''b'', random = False\<rparr>;
          (countToken, args) = Match Integer args;
          stmt = (case countToken of
                    None \<Rightarrow> stmt
                  | Some t \<Rightarrow> stmt\<lparr>count := AsInteger (Val t)\<rparr>);
          (methodToken, args) = Match Name args
      in if (case methodToken of
               None \<Rightarrow> False
             | Some t \<Rightarrow> Val t \<noteq> ''w'' \<and> Val t \<noteq> ''p'' \<and> Val t \<noteq> ''b'')
         then (Inl (Error args ''lorem-method must be either 'w', 'p' or 'b'.''), p, args)
         else
           let stmt = (case methodToken of
                         None \<Rightarrow> stmt
                       | Some t \<Rightarrow> stmt\<lparr>method' := Val t\<rparr>);
               (randomToken, args) = MatchName ''random'' args;
               stmt = (if randomToken \<noteq> None then stmt\<lparr>random := True\<rparr> else stmt)
           in if \<not> End args
              then (Inl (Error args ''Malformed lorem-tag args.''), p, args)
              else (Inr (Lorem stmt), p, args))"

section \<open>The comment tag (comment.go)\<close>

text \<open>
  \<^verbatim>\<open>commentParser\<close>. \<^verbatim>\<open>SkipUntil\<close> moves the cursor of the outer parser; the model returns
  the result with both parsers as they are on return.
\<close>

definition commentParser :: "Parser \<Rightarrow> Parser \<Rightarrow> (error + Statement) \<times> Parser \<times> Parser" where
  "commentParser p args =
     (let commentNode = \<lparr>CommentStmt.Location = Current p\<rparr>;
          (err, p) = SkipUntil ''endcomment'' p
      in case err of
           Some e \<Rightarrow> (Inl e, p, args)
         | None \<Rightarrow>
             if \<not> End args
             then (Inl (Error args ''Tag 'comment' does not take any argument.''), p, args)
             else (Inr (Comment commentNode), p, args))"

text \<open>
  Modelled from the spec: executing a comment. \<^verbatim>\<open>CommentStmt\<close> declares no \<^verbatim>\<open>Execute\<close>
  method in \<^verbatim>\<open>comment.go\<close> and the renderer that walks the nodes is not in the sources;
  section 4.4: execution is a no-op that writes nothing to the renderer.
\<close>

definition Execute_comment :: "CommentStmt \<Rightarrow> 'r \<Rightarrow> error option \<times> 'r" where
  "Execute_comment stmt r = (None, r)"

section \<open>The statement registry\<close>

type_synonym StatementParser = "Parser \<Rightarrow> Parser \<Rightarrow> (error + Statement) \<times> Parser \<times> Parser"

type_synonym StatementSet = "string \<rightharpoonup> StatementParser"

text \<open>
  Modelled from the spec: \<^verbatim>\<open>All.Register\<close> (section 4.1): \<^verbatim>\<open>register(name, parserFn)\<close> fails
  if the name is already bound, otherwise binds the name to the function. The registry
  \<^verbatim>\<open>All\<close> is a package variable in Go; here it is the argument \<open>reg\<close>, passed and returned.
\<close>

definition Register ::
  "StatementSet \<Rightarrow> string \<Rightarrow> StatementParser \<Rightarrow> error option \<times> StatementSet" where
  "Register reg name parserFn =
     (case reg name of
        Some _ \<Rightarrow> (Some (DuplicateRegistration name), reg)
      | None \<Rightarrow> (None, reg(name \<mapsto> parserFn)))"

text \<open>
  The two \<^verbatim>\<open>init\<close> functions: \<^verbatim>\<open>_ = All.Register(...)\<close> drops the result of the
  registration and keeps the registry as \<^verbatim>\<open>Register\<close> left it.
\<close>

definition init_lorem :: "StatementSet \<Rightarrow> StatementSet" where
  "init_lorem reg = (let (_, reg) = Register reg ''lorem'' loremParser in reg)"

definition init_comment :: "StatementSet \<Rightarrow> StatementSet" where
  "init_comment reg = (let (_, reg) = Register reg ''comment'' commentParser in reg)"

section \<open>Facts about the parser contract\<close>

lemma Current_at: "cursor p < length (stream p) \<Longrightarrow> Current p = Some (stream p ! cursor p)"
  by (simp add: Current_def)

lemma Current_end: "length (stream p) \<le> cursor p \<Longrightarrow> Current p = None"
  by (simp add: Current_def)

text \<open>
  The scan finds nothing exactly when no position of the sequence starts an end tag, and
  what it returns otherwise is the length up to the end of the first end tag.
\<close>

lemma end_tag_at_Suc: "end_tag_at m (a # ts) (Suc i) = end_tag_at m ts i"
  by (simp add: end_tag_at_def)

lemma end_tag_at_0:
  "end_tag_at m (a # b # c # ts) 0 =
     (Typ a = BlockBegin \<and> Typ b = Name \<and> Val b = m \<and> Typ c = BlockEnd)"
  by (simp add: end_tag_at_def)

lemma end_tag_at_short: "length ts < 3 \<Longrightarrow> \<not> end_tag_at m ts i"
  by (simp add: end_tag_at_def)

lemma skip_scan_None_iff: "skip_scan m ts = None \<longleftrightarrow> (\<forall>i. \<not> end_tag_at m ts i)"
proof (induction m ts rule: skip_scan.induct)
  case (1 m a b c ts)
  show ?case
  proof (cases "Typ a = BlockBegin \<and> Typ b = Name \<and> Val b = m \<and> Typ c = BlockEnd")
    case True
    then have "end_tag_at m (a # b # c # ts) 0" by (simp add: end_tag_at_0)
    with True show ?thesis by auto
  next
    case False
    then have no0: "\<not> end_tag_at m (a # b # c # ts) 0" by (simp add: end_tag_at_0)
    from False have "skip_scan m (a # b # c # ts) = None \<longleftrightarrow> skip_scan m (b # c # ts) = None"
      by auto
    also have "\<dots> \<longleftrightarrow> (\<forall>i. \<not> end_tag_at m (b # c # ts) i)" using 1 False by blast
    also have "\<dots> \<longleftrightarrow> (\<forall>i. \<not> end_tag_at m (a # b # c # ts) (Suc i))"
      by (simp only: end_tag_at_Suc)
    also have "\<dots> \<longleftrightarrow> (\<forall>i. \<not> end_tag_at m (a # b # c # ts) i)"
    proof
      assume h: "\<forall>i. \<not> end_tag_at m (a # b # c # ts) (Suc i)"
      show "\<forall>i. \<not> end_tag_at m (a # b # c # ts) i"
      proof
        fix i show "\<not> end_tag_at m (a # b # c # ts) i"
          using h no0 by (cases i) auto
      qed
    next
      assume "\<forall>i. \<not> end_tag_at m (a # b # c # ts) i"
      then show "\<forall>i. \<not> end_tag_at m (a # b # c # ts) (Suc i)" by blast
    qed
    finally show ?thesis .
  qed
qed (simp_all add: end_tag_at_short)

lemma skip_scan_Some:
  "skip_scan m ts = Some n \<Longrightarrow>
     3 \<le> n \<and> n \<le> length ts \<and> end_tag_at m ts (n - 3) \<and> (\<forall>j<n - 3. \<not> end_tag_at m ts j)"
proof (induction m ts arbitrary: n rule: skip_scan.induct)
  case (1 m a b c ts)
  show ?case
  proof (cases "Typ a = BlockBegin \<and> Typ b = Name \<and> Val b = m \<and> Typ c = BlockEnd")
    case True
    with 1(2) have "n = 3" by auto
    with True show ?thesis by (simp add: end_tag_at_0)
  next
    case False
    with 1(2) obtain k where k: "skip_scan m (b # c # ts) = Some k" and n: "n = Suc k"
      by auto
    from 1(1)[OF False k] have ih: "3 \<le> k" "k \<le> length (b # c # ts)"
      "end_tag_at m (b # c # ts) (k - 3)" "\<forall>j<k - 3. \<not> end_tag_at m (b # c # ts) j"
      by auto
    have n3: "n - 3 = Suc (k - 3)" using n ih(1) by simp
    have "\<forall>j<n - 3. \<not> end_tag_at m (a # b # c # ts) j"
    proof (intro allI impI)
      fix j assume j: "j < n - 3"
      show "\<not> end_tag_at m (a # b # c # ts) j"
      proof (cases j)
        case 0
        then show ?thesis using False by (simp add: end_tag_at_0)
      next
        case (Suc j')
        then have "j' < k - 3" using j n3 by simp
        then show ?thesis using ih(4) Suc by (simp add: end_tag_at_Suc)
      qed
    qed
    then show ?thesis using ih n n3 by (simp add: end_tag_at_Suc)
  qed
qed simp_all

lemma end_tag_at_drop: "end_tag_at m (drop k ts) i = end_tag_at m ts (k + i)"
proof (cases "k \<le> length ts")
  case True
  then show ?thesis by (auto simp add: end_tag_at_def add.assoc)
next
  case False
  then show ?thesis by (simp add: end_tag_at_def)
qed

lemma SkipUntil_fails:
  "(\<forall>i. \<not> end_tag_at m (stream p) (cursor p + i)) \<Longrightarrow>
     fst (SkipUntil m p) = Some (UnterminatedBlock m (Current p))"
proof -
  assume "\<forall>i. \<not> end_tag_at m (stream p) (cursor p + i)"
  then have "skip_scan m (drop (cursor p) (stream p)) = None"
    by (simp add: skip_scan_None_iff end_tag_at_drop)
  then show ?thesis by (simp add: SkipUntil_def)
qed

lemma SkipUntil_succeeds:
  "end_tag_at m (stream p) (cursor p + i) \<Longrightarrow> fst (SkipUntil m p) = None"
proof -
  assume "end_tag_at m (stream p) (cursor p + i)"
  then have "skip_scan m (drop (cursor p) (stream p)) \<noteq> None"
    by (auto simp add: skip_scan_None_iff end_tag_at_drop)
  then show ?thesis by (auto simp add: SkipUntil_def)
qed

lemma SkipUntil_None_iff:
  "fst (SkipUntil m p) = None \<longleftrightarrow> (\<exists>i. end_tag_at m (stream p) (cursor p + i))"
proof (cases "\<exists>i. end_tag_at m (stream p) (cursor p + i)")
  case True
  then show ?thesis using SkipUntil_succeeds[of m p] by blast
next
  case False
  then have "fst (SkipUntil m p) = Some (UnterminatedBlock m (Current p))"
    using SkipUntil_fails[of m p] by blast
  with False show ?thesis by simp
qed

text \<open>
  What a successful run of either parsing function returns: the node built at entry,
  whose position is the current token of the outer parser at that moment.
\<close>

lemma commentParser_Inr:
  assumes "fst (commentParser p args) = Inr node"
  shows "node = Comment \<lparr>CommentStmt.Location = Current p\<rparr>"
  using assms
  by (cases "SkipUntil ''endcomment'' p")
     (auto simp add: commentParser_def split: option.splits if_splits)

lemma loremParser_Inr:
  assumes "fst (loremParser p args) = Inr node"
  shows "\<exists>stmt. node = Lorem stmt \<and> LoremStmt.Location stmt = Current p"
proof -
  obtain ct a1 where m1: "Match Integer args = (ct, a1)" by (cases "Match Integer args")
  obtain mt a2 where m2: "Match Name a1 = (mt, a2)" by (cases "Match Name a1")
  obtain rt a3 where m3: "MatchName ''random'' a2 = (rt, a3)" by (cases "MatchName ''random'' a2")
  show ?thesis
    using assms m1 m2 m3
    by (auto simp add: loremParser_def Let_def split: option.splits if_splits)
qed

section \<open>The lorem tag: parsing\<close>

text \<open>
  Claim C3. The lorem parsing function applies defaults and overrides in order. With an
  empty argument list it succeeds with count 1, mode \<^verbatim>\<open>b\<close> (plain paragraph) and
  randomize false. With the argument tokens \<^verbatim>\<open>3 p random\<close>, wherever they stand in the
  template, it succeeds with count 3, mode \<^verbatim>\<open>p\<close> (html paragraph) and randomize true,
  and the argument sub-parser is at its end when the node is returned. The position of
  the node is the current token of the outer parser in both cases.
\<close>

theorem loremParser_defaults_and_overrides:
  "loremParser p \<lparr>stream = [], cursor = 0\<rparr> =
     (Inr (Lorem \<lparr>LoremStmt.Location = Current p, count = 1, method' = ''b'', random = False\<rparr>),
      p, \<lparr>stream = [], cursor = 0\<rparr>) \<and>
   fst (loremParser p
         \<lparr>stream = [\<lparr>Typ = Integer, Val = ''3'', Line = l1, Col = c1\<rparr>,
                    \<lparr>Typ = Name, Val = ''p'', Line = l2, Col = c2\<rparr>,
                    \<lparr>Typ = Name, Val = ''random'', Line = l3, Col = c3\<rparr>],
          cursor = 0\<rparr>) =
     Inr (Lorem \<lparr>LoremStmt.Location = Current p, count = 3, method' = ''p'', random = True\<rparr>) \<and>
   End (snd (snd (loremParser p
         \<lparr>stream = [\<lparr>Typ = Integer, Val = ''3'', Line = l1, Col = c1\<rparr>,
                    \<lparr>Typ = Name, Val = ''p'', Line = l2, Col = c2\<rparr>,
                    \<lparr>Typ = Name, Val = ''random'', Line = l3, Col = c3\<rparr>],
          cursor = 0\<rparr>)))"
  by (simp add: loremParser_def Match_def MatchName_def Current_def End_def AsInteger_def
      is_digit_def)

text \<open>
  Claim C2. The claim reads the tag syntax \<^verbatim>\<open>lorem [count] [w|p|b] [random]\<close> as three
  independently optional arguments, so that the single argument \<^verbatim>\<open>random\<close> gives
  count 1, mode \<^verbatim>\<open>b\<close> and randomize true. The code does not do that: \<^verbatim>\<open>random\<close> is a
  bare name, so \<^verbatim>\<open>args.Match(tokens.Name)\<close> takes it as the mode, and the parser returns
  the error for a wrong mode letter and no node. The error is positioned at the current
  token of the sub-parser, which is at its end.
\<close>

theorem loremParser_random_alone_fails:
  "loremParser p \<lparr>stream = [\<lparr>Typ = Name, Val = ''random'', Line = l, Col = c\<rparr>], cursor = 0\<rparr> =
     (Inl (MalformedArguments ''lorem-method must be either 'w', 'p' or 'b'.'' None),
      p, \<lparr>stream = [\<lparr>Typ = Name, Val = ''random'', Line = l, Col = c\<rparr>], cursor = 1\<rparr>)"
  by (simp add: loremParser_def Match_def MatchName_def Current_def End_def Error_def)

text \<open>
  Claim C4, as amended. When the token in mode position (the current token of the
  argument sub-parser once the optional count has been matched) is a bare name other
  than \<^verbatim>\<open>w\<close>, \<^verbatim>\<open>p\<close> and \<^verbatim>\<open>b\<close>, the lorem parsing function returns the error
  "lorem-method must be either 'w', 'p' or 'b'." and no node. The mode token has been
  consumed by then, so the error is positioned at the current token of the sub-parser
  one step further: the token that follows the mode token, or none when the mode token
  is the last argument. The parsing function has no access to the text generator.
\<close>

theorem loremParser_wrong_mode:
  assumes "snd (Match Integer args) = args1"
    and "Current args1 = Some t"
    and "Typ t = Name"
    and "Val t \<noteq> ''w''" and "Val t \<noteq> ''p''" and "Val t \<noteq> ''b''"
  shows "loremParser p args =
           (Inl (MalformedArguments ''lorem-method must be either 'w', 'p' or 'b'.''
                   (Current (args1\<lparr>cursor := cursor args1 + 1\<rparr>))),
            p, args1\<lparr>cursor := cursor args1 + 1\<rparr>)"
proof -
  obtain countToken where m1: "Match Integer args = (countToken, args1)"
    using assms(1) by (cases "Match Integer args") auto
  have m2: "Match Name args1 = (Some t, args1\<lparr>cursor := cursor args1 + 1\<rparr>)"
    using assms(2,3) by (simp add: Match_def)
  show ?thesis
    using m1 m2 assms(4-6) by (simp add: loremParser_def Error_def)
qed

theorem loremParser_wrong_mode_witness:
  "loremParser \<lparr>stream = [], cursor = 0\<rparr>
     \<lparr>stream = [\<lparr>Typ = Integer, Val = ''2'', Line = 1, Col = 10\<rparr>,
                \<lparr>Typ = Name, Val = ''x'', Line = 1, Col = 12\<rparr>,
                \<lparr>Typ = Name, Val = ''y'', Line = 1, Col = 14\<rparr>], cursor = 0\<rparr> =
     (Inl (MalformedArguments ''lorem-method must be either 'w', 'p' or 'b'.''
             (Some \<lparr>Typ = Name, Val = ''y'', Line = 1, Col = 14\<rparr>)),
      \<lparr>stream = [], cursor = 0\<rparr>,
      \<lparr>stream = [\<lparr>Typ = Integer, Val = ''2'', Line = 1, Col = 10\<rparr>,
                \<lparr>Typ = Name, Val = ''x'', Line = 1, Col = 12\<rparr>,
                \<lparr>Typ = Name, Val = ''y'', Line = 1, Col = 14\<rparr>], cursor = 2\<rparr>)"
  using loremParser_wrong_mode
    [of "\<lparr>stream = [\<lparr>Typ = Integer, Val = ''2'', Line = 1, Col = 10\<rparr>,
                \<lparr>Typ = Name, Val = ''x'', Line = 1, Col = 12\<rparr>,
                \<lparr>Typ = Name, Val = ''y'', Line = 1, Col = 14\<rparr>], cursor = 0\<rparr>"
        "\<lparr>stream = [\<lparr>Typ = Integer, Val = ''2'', Line = 1, Col = 10\<rparr>,
                \<lparr>Typ = Name, Val = ''x'', Line = 1, Col = 12\<rparr>,
                \<lparr>Typ = Name, Val = ''y'', Line = 1, Col = 14\<rparr>], cursor = 1\<rparr>"
        "\<lparr>Typ = Name, Val = ''x'', Line = 1, Col = 12\<rparr>"
        "\<lparr>stream = [], cursor = 0\<rparr>"]
  by (simp add: Match_def Current_def)

text \<open>
  The claim as stated puts the error at the mode token itself. For the arguments
  \<^verbatim>\<open>2 x y\<close> the error is positioned at \<^verbatim>\<open>y\<close> (column 14), not at the mode token \<^verbatim>\<open>x\<close>
  (column 12).
\<close>

theorem loremParser_wrong_mode_position_counterexample:
  "fst (loremParser \<lparr>stream = [], cursor = 0\<rparr>
     \<lparr>stream = [\<lparr>Typ = Integer, Val = ''2'', Line = 1, Col = 10\<rparr>,
                \<lparr>Typ = Name, Val = ''x'', Line = 1, Col = 12\<rparr>,
                \<lparr>Typ = Name, Val = ''y'', Line = 1, Col = 14\<rparr>], cursor = 0\<rparr>) =
     Inl (MalformedArguments ''lorem-method must be either 'w', 'p' or 'b'.''
             (Some \<lparr>Typ = Name, Val = ''y'', Line = 1, Col = 14\<rparr>)) \<and>
   fst (loremParser \<lparr>stream = [], cursor = 0\<rparr>
     \<lparr>stream = [\<lparr>Typ = Integer, Val = ''2'', Line = 1, Col = 10\<rparr>,
                \<lparr>Typ = Name, Val = ''x'', Line = 1, Col = 12\<rparr>,
                \<lparr>Typ = Name, Val = ''y'', Line = 1, Col = 14\<rparr>], cursor = 0\<rparr>) \<noteq>
     Inl (MalformedArguments ''lorem-method must be either 'w', 'p' or 'b'.''
             (Some \<lparr>Typ = Name, Val = ''x'', Line = 1, Col = 12\<rparr>))"
  by (simp add: loremParser_def Match_def MatchName_def Current_def End_def Error_def)

section \<open>The lorem tag: execution\<close>

text \<open>
  Claim C1. The claim has \<^verbatim>\<open>Execute\<close> pass count, mode and the randomize flag to the text
  generator, so that the output depends on the flag. The code calls
  \<^verbatim>\<open>utils.Lorem(stmt.count, stmt.method)\<close>: the field \<^verbatim>\<open>random\<close> is never read. Whatever the
  generator and the writer are, the result and the renderer after the call are the same
  for both values of the flag.
\<close>

theorem Execute_never_reads_random:
  "Execute utils_Lorem WriteString (stmt\<lparr>random := True\<rparr>) r =
   Execute utils_Lorem WriteString (stmt\<lparr>random := False\<rparr>) r"
  by (simp add: Execute_def)

text \<open>
  Claim C9. When the text generator succeeds, \<^verbatim>\<open>Execute\<close> returns no error whatever the
  renderer's write returns: the byte count and the error of \<^verbatim>\<open>WriteString\<close> are dropped,
  and the renderer is left as the write left it.
\<close>

theorem Execute_drops_write_result:
  assumes "utils_Lorem (count stmt) (method' stmt) = Inr lorem"
  shows "Execute utils_Lorem WriteString stmt r = (None, snd (WriteString r lorem))"
  using assms by (simp add: Execute_def split: prod.splits)

theorem Execute_drops_write_result_witness:
  "Execute (\<lambda>n m. if m = ''b'' then Inr ''Lorem ipsum'' else Inl (UnknownMode m))
           (\<lambda>r s. ((0, Some ''write failed''), r))
           \<lparr>LoremStmt.Location = None, count = 1, method' = ''b'', random = False\<rparr> ''out'' =
     (None, ''out'')"
  using Execute_drops_write_result
    [of "\<lambda>n m. if m = ''b'' then Inr ''Lorem ipsum'' else Inl (UnknownMode m)"
        "\<lparr>LoremStmt.Location = None, count = 1, method' = ''b'', random = False\<rparr>"
        "''Lorem ipsum''" "\<lambda>r s. ((0, Some ''write failed''), r)" "''out''"]
  by simp

section \<open>The comment tag\<close>

text \<open>
  Claim C5, as amended. When no end tag \<^verbatim>\<open>endcomment\<close> stands anywhere from the cursor of
  the outer parser to the end of input, the comment parsing function returns no node and
  the error of \<^verbatim>\<open>SkipUntil\<close> as it is: an unterminated-block error positioned at the point
  skipping began, which is the current token of the outer parser at entry. That is the
  token the outer cursor stands on when the function is called (none when the cursor is
  at the end of input), wherever the opening tag of the comment is.
\<close>

theorem commentParser_unterminated:
  assumes "\<forall>i. \<not> end_tag_at ''endcomment'' (stream p) (cursor p + i)"
  shows "fst (commentParser p args) = Inl (UnterminatedBlock ''endcomment'' (Current p))"
proof -
  have "fst (SkipUntil ''endcomment'' p) = Some (UnterminatedBlock ''endcomment'' (Current p))"
    using assms by (rule SkipUntil_fails)
  then show ?thesis
    by (cases "SkipUntil ''endcomment'' p") (simp add: commentParser_def)
qed

theorem commentParser_unterminated_witness:
  "fst (commentParser
         \<lparr>stream = [\<lparr>Typ = BlockBegin, Val = ''{%'', Line = 1, Col = 1\<rparr>,
                    \<lparr>Typ = Name, Val = ''comment'', Line = 1, Col = 4\<rparr>,
                    \<lparr>Typ = BlockEnd, Val = ''%}'', Line = 1, Col = 12\<rparr>,
                    \<lparr>Typ = Data, Val = '' unterminated'', Line = 1, Col = 14\<rparr>],
          cursor = 3\<rparr>
         \<lparr>stream = [], cursor = 0\<rparr>) =
     Inl (UnterminatedBlock ''endcomment''
            (Some \<lparr>Typ = Data, Val = '' unterminated'', Line = 1, Col = 14\<rparr>))"
  using commentParser_unterminated
    [of "\<lparr>stream = [\<lparr>Typ = BlockBegin, Val = ''{%'', Line = 1, Col = 1\<rparr>,
                    \<lparr>Typ = Name, Val = ''comment'', Line = 1, Col = 4\<rparr>,
                    \<lparr>Typ = BlockEnd, Val = ''%}'', Line = 1, Col = 12\<rparr>,
                    \<lparr>Typ = Data, Val = '' unterminated'', Line = 1, Col = 14\<rparr>],
          cursor = 3\<rparr>"
        "\<lparr>stream = [], cursor = 0\<rparr>"]
  by (simp add: end_tag_at_def Current_def)

text \<open>
  The claim as stated puts the error at the opening tag of the comment. For
  \<^verbatim>\<open>{% comment %}\<close> on line 1 (tokens at columns 1, 4 and 12) followed by a body on line 2
  and no end tag, with the outer cursor past the tag, the error is positioned at the body
  token on line 2 and at none of the three tokens of the opening tag.
\<close>

theorem commentParser_unterminated_position_counterexample:
  "fst (commentParser
         \<lparr>stream = [\<lparr>Typ = BlockBegin, Val = ''{%'', Line = 1, Col = 1\<rparr>,
                    \<lparr>Typ = Name, Val = ''comment'', Line = 1, Col = 4\<rparr>,
                    \<lparr>Typ = BlockEnd, Val = ''%}'', Line = 1, Col = 12\<rparr>,
                    \<lparr>Typ = Data, Val = ''unterminated'', Line = 2, Col = 1\<rparr>],
          cursor = 3\<rparr>
         \<lparr>stream = [], cursor = 0\<rparr>) =
     Inl (UnterminatedBlock ''endcomment''
            (Some \<lparr>Typ = Data, Val = ''unterminated'', Line = 2, Col = 1\<rparr>)) \<and>
   fst (commentParser
         \<lparr>stream = [\<lparr>Typ = BlockBegin, Val = ''{%'', Line = 1, Col = 1\<rparr>,
                    \<lparr>Typ = Name, Val = ''comment'', Line = 1, Col = 4\<rparr>,
                    \<lparr>Typ = BlockEnd, Val = ''%}'', Line = 1, Col = 12\<rparr>,
                    \<lparr>Typ = Data, Val = ''unterminated'', Line = 2, Col = 1\<rparr>],
          cursor = 3\<rparr>
         \<lparr>stream = [], cursor = 0\<rparr>) \<noteq>
     Inl (UnterminatedBlock ''endcomment''
            (Some \<lparr>Typ = BlockBegin, Val = ''{%'', Line = 1, Col = 1\<rparr>)) \<and>
   fst (commentParser
         \<lparr>stream = [\<lparr>Typ = BlockBegin, Val = ''{%'', Line = 1, Col = 1\<rparr>,
                    \<lparr>Typ = Name, Val = ''comment'', Line = 1, Col = 4\<rparr>,
                    \<lparr>Typ = BlockEnd, Val = ''%}'', Line = 1, Col = 12\<rparr>,
                    \<lparr>Typ = Data, Val = ''unterminated'', Line = 2, Col = 1\<rparr>],
          cursor = 3\<rparr>
         \<lparr>stream = [], cursor = 0\<rparr>) \<noteq>
     Inl (UnterminatedBlock ''endcomment''
            (Some \<lparr>Typ = Name, Val = ''comment'', Line = 1, Col = 4\<rparr>)) \<and>
   fst (commentParser
         \<lparr>stream = [\<lparr>Typ = BlockBegin, Val = ''{%'', Line = 1, Col = 1\<rparr>,
                    \<lparr>Typ = Name, Val = ''comment'', Line = 1, Col = 4\<rparr>,
                    \<lparr>Typ = BlockEnd, Val = ''%}'', Line = 1, Col = 12\<rparr>,
                    \<lparr>Typ = Data, Val = ''unterminated'', Line = 2, Col = 1\<rparr>],
          cursor = 3\<rparr>
         \<lparr>stream = [], cursor = 0\<rparr>) \<noteq>
     Inl (UnterminatedBlock ''endcomment''
            (Some \<lparr>Typ = BlockEnd, Val = ''%}'', Line = 1, Col = 12\<rparr>))"
  by (simp add: commentParser_def SkipUntil_def Current_def)

text \<open>
  Claim C6. When an end tag \<^verbatim>\<open>endcomment\<close> is found and the argument sub-parser is not at
  its end, the comment parsing function returns no node and the error "Tag 'comment'
  does not take any argument.", built by the sub-parser.
\<close>

theorem commentParser_arguments:
  assumes "end_tag_at ''endcomment'' (stream p) (cursor p + i)"
    and "\<not> End args"
  shows "fst (commentParser p args) =
           Inl (MalformedArguments ''Tag 'comment' does not take any argument.'' (Current args))"
proof -
  have "fst (SkipUntil ''endcomment'' p) = None"
    using assms(1) by (rule SkipUntil_succeeds)
  then show ?thesis
    using assms(2) by (cases "SkipUntil ''endcomment'' p") (simp add: commentParser_def Error_def)
qed

theorem commentParser_arguments_witness:
  "fst (commentParser
         \<lparr>stream = [\<lparr>Typ = Data, Val = '' x '', Line = 1, Col = 20\<rparr>,
                    \<lparr>Typ = BlockBegin, Val = ''{%'', Line = 1, Col = 23\<rparr>,
                    \<lparr>Typ = Name, Val = ''endcomment'', Line = 1, Col = 26\<rparr>,
                    \<lparr>Typ = BlockEnd, Val = ''%}'', Line = 1, Col = 37\<rparr>],
          cursor = 0\<rparr>
         \<lparr>stream = [\<lparr>Typ = Name, Val = ''extra'', Line = 1, Col = 12\<rparr>], cursor = 0\<rparr>) =
     Inl (MalformedArguments ''Tag 'comment' does not take any argument.''
            (Some \<lparr>Typ = Name, Val = ''extra'', Line = 1, Col = 12\<rparr>))"
  using commentParser_arguments
    [of "\<lparr>stream = [\<lparr>Typ = Data, Val = '' x '', Line = 1, Col = 20\<rparr>,
                    \<lparr>Typ = BlockBegin, Val = ''{%'', Line = 1, Col = 23\<rparr>,
                    \<lparr>Typ = Name, Val = ''endcomment'', Line = 1, Col = 26\<rparr>,
                    \<lparr>Typ = BlockEnd, Val = ''%}'', Line = 1, Col = 37\<rparr>],
          cursor = 0\<rparr>"
        1
        "\<lparr>stream = [\<lparr>Typ = Name, Val = ''extra'', Line = 1, Col = 12\<rparr>], cursor = 0\<rparr>"]
  by (simp add: end_tag_at_def End_def Current_def)

text \<open>
  Claim C7. The node of a successfully parsed comment holds the position captured at
  entry and nothing else: whatever the skipped body was, the node is the record with
  that one field. Executing it returns no error and leaves the renderer as it was.
\<close>

theorem CommentStmt_keeps_position_only:
  assumes "fst (commentParser p args) = Inr node"
  shows "\<exists>stmt. node = Comment stmt \<and> stmt = \<lparr>CommentStmt.Location = Current p\<rparr> \<and>
           Execute_comment stmt r = (None, r)"
  using commentParser_Inr[OF assms] by (simp add: Execute_comment_def)

theorem CommentStmt_keeps_position_only_witness:
  "fst (commentParser
         \<lparr>stream = [\<lparr>Typ = Data, Val = '' anything '', Line = 1, Col = 14\<rparr>,
                    \<lparr>Typ = BlockBegin, Val = ''{%'', Line = 1, Col = 24\<rparr>,
                    \<lparr>Typ = Name, Val = ''lorem'', Line = 1, Col = 27\<rparr>,
                    \<lparr>Typ = Integer, Val = ''5'', Line = 1, Col = 33\<rparr>,
                    \<lparr>Typ = BlockEnd, Val = ''%}'', Line = 1, Col = 35\<rparr>,
                    \<lparr>Typ = BlockBegin, Val = ''{%'', Line = 1, Col = 38\<rparr>,
                    \<lparr>Typ = Name, Val = ''endcomment'', Line = 1, Col = 41\<rparr>,
                    \<lparr>Typ = BlockEnd, Val = ''%}'', Line = 1, Col = 52\<rparr>],
          cursor = 0\<rparr>
         \<lparr>stream = [], cursor = 0\<rparr>) =
     Inr (Comment \<lparr>CommentStmt.Location =
                     Some \<lparr>Typ = Data, Val = '' anything '', Line = 1, Col = 14\<rparr>\<rparr>) \<and>
   Execute_comment
     \<lparr>CommentStmt.Location = Some \<lparr>Typ = Data, Val = '' anything '', Line = 1, Col = 14\<rparr>\<rparr>
     ''out'' = (None, ''out'')"
  using CommentStmt_keeps_position_only
    [of "\<lparr>stream = [\<lparr>Typ = Data, Val = '' anything '', Line = 1, Col = 14\<rparr>,
                    \<lparr>Typ = BlockBegin, Val = ''{%'', Line = 1, Col = 24\<rparr>,
                    \<lparr>Typ = Name, Val = ''lorem'', Line = 1, Col = 27\<rparr>,
                    \<lparr>Typ = Integer, Val = ''5'', Line = 1, Col = 33\<rparr>,
                    \<lparr>Typ = BlockEnd, Val = ''%}'', Line = 1, Col = 35\<rparr>,
                    \<lparr>Typ = BlockBegin, Val = ''{%'', Line = 1, Col = 38\<rparr>,
                    \<lparr>Typ = Name, Val = ''endcomment'', Line = 1, Col = 41\<rparr>,
                    \<lparr>Typ = BlockEnd, Val = ''%}'', Line = 1, Col = 52\<rparr>],
          cursor = 0\<rparr>"
        "\<lparr>stream = [], cursor = 0\<rparr>"
        "Comment \<lparr>CommentStmt.Location =
                     Some \<lparr>Typ = Data, Val = '' anything '', Line = 1, Col = 14\<rparr>\<rparr>"
        "''out''"]
  by (simp add: commentParser_def SkipUntil_def End_def Current_def)

section \<open>Positions of the nodes\<close>

text \<open>
  Claim C8. For every successful run of the lorem or the comment parsing function, the
  position of the returned node is the current token of the outer parser at entry,
  before any argument token is consumed and before any body is skipped; it does not
  depend on where the arguments or the body end.
\<close>

theorem Position_is_outer_current:
  "(fst (loremParser p args) = Inr node \<longrightarrow> Position node = Current p) \<and>
   (fst (commentParser p' args') = Inr node' \<longrightarrow> Position node' = Current p')"
  using loremParser_Inr[of p args node] commentParser_Inr[of p' args' node'] by auto

theorem Position_is_outer_current_witness:
  "fst (loremParser
         \<lparr>stream = [\<lparr>Typ = Data, Val = '' after'', Line = 2, Col = 1\<rparr>], cursor = 0\<rparr>
         \<lparr>stream = [\<lparr>Typ = Integer, Val = ''3'', Line = 1, Col = 10\<rparr>,
                    \<lparr>Typ = Name, Val = ''p'', Line = 1, Col = 12\<rparr>], cursor = 0\<rparr>) =
     Inr (Lorem \<lparr>LoremStmt.Location = Some \<lparr>Typ = Data, Val = '' after'', Line = 2, Col = 1\<rparr>,
                  count = 3, method' = ''p'', random = False\<rparr>) \<and>
   Position (Lorem \<lparr>LoremStmt.Location = Some \<lparr>Typ = Data, Val = '' after'', Line = 2, Col = 1\<rparr>,
                  count = 3, method' = ''p'', random = False\<rparr>) =
     Current \<lparr>stream = [\<lparr>Typ = Data, Val = '' after'', Line = 2, Col = 1\<rparr>], cursor = 0\<rparr> \<and>
   fst (commentParser
         \<lparr>stream = [\<lparr>Typ = Data, Val = '' body '', Line = 1, Col = 14\<rparr>,
                    \<lparr>Typ = BlockBegin, Val = ''{%'', Line = 1, Col = 20\<rparr>,
                    \<lparr>Typ = Name, Val = ''endcomment'', Line = 1, Col = 23\<rparr>,
                    \<lparr>Typ = BlockEnd, Val = ''%}'', Line = 1, Col = 34\<rparr>],
          cursor = 0\<rparr>
         \<lparr>stream = [], cursor = 0\<rparr>) =
     Inr (Comment \<lparr>CommentStmt.Location =
                     Some \<lparr>Typ = Data, Val = '' body '', Line = 1, Col = 14\<rparr>\<rparr>) \<and>
   Position (Comment \<lparr>CommentStmt.Location =
                     Some \<lparr>Typ = Data, Val = '' body '', Line = 1, Col = 14\<rparr>\<rparr>) =
     Current \<lparr>stream = [\<lparr>Typ = Data, Val = '' body '', Line = 1, Col = 14\<rparr>,
                    \<lparr>Typ = BlockBegin, Val = ''{%'', Line = 1, Col = 20\<rparr>,
                    \<lparr>Typ = Name, Val = ''endcomment'', Line = 1, Col = 23\<rparr>,
                    \<lparr>Typ = BlockEnd, Val = ''%}'', Line = 1, Col = 34\<rparr>],
          cursor = 0\<rparr>"
  using Position_is_outer_current
    [of "\<lparr>stream = [\<lparr>Typ = Data, Val = '' after'', Line = 2, Col = 1\<rparr>], cursor = 0\<rparr>"
        "\<lparr>stream = [\<lparr>Typ = Integer, Val = ''3'', Line = 1, Col = 10\<rparr>,
                    \<lparr>Typ = Name, Val = ''p'', Line = 1, Col = 12\<rparr>], cursor = 0\<rparr>"
        "Lorem \<lparr>LoremStmt.Location = Some \<lparr>Typ = Data, Val = '' after'', Line = 2, Col = 1\<rparr>,
                  count = 3, method' = ''p'', random = False\<rparr>"
        "\<lparr>stream = [\<lparr>Typ = Data, Val = '' body '', Line = 1, Col = 14\<rparr>,
                    \<lparr>Typ = BlockBegin, Val = ''{%'', Line = 1, Col = 20\<rparr>,
                    \<lparr>Typ = Name, Val = ''endcomment'', Line = 1, Col = 23\<rparr>,
                    \<lparr>Typ = BlockEnd, Val = ''%}'', Line = 1, Col = 34\<rparr>],
          cursor = 0\<rparr>"
        "\<lparr>stream = [], cursor = 0\<rparr>"
        "Comment \<lparr>CommentStmt.Location =
                     Some \<lparr>Typ = Data, Val = '' body '', Line = 1, Col = 14\<rparr>\<rparr>"]
  by (simp add: loremParser_def commentParser_def SkipUntil_def Match_def MatchName_def
      End_def Current_def AsInteger_def is_digit_def)

section \<open>Registration at module load\<close>

text \<open>
  Claim C10. Both \<^verbatim>\<open>init\<close> functions drop the result of the registration. When the name
  is already bound, \<^verbatim>\<open>Register\<close> returns a duplicate-registration error; \<^verbatim>\<open>init\<close> returns
  nothing of it, and the registry is unchanged, with the name still bound to the
  earlier parsing function.
\<close>

theorem init_drops_registration_error:
  assumes "reg ''lorem'' = Some f" and "reg' ''comment'' = Some g"
  shows "fst (Register reg ''lorem'' loremParser) = Some (DuplicateRegistration ''lorem'') \<and>
         init_lorem reg = reg \<and> init_lorem reg ''lorem'' = Some f \<and>
         fst (Register reg' ''comment'' commentParser) = Some (DuplicateRegistration ''comment'') \<and>
         init_comment reg' = reg' \<and> init_comment reg' ''comment'' = Some g"
  using assms by (simp add: Register_def init_lorem_def init_comment_def)

theorem init_drops_registration_error_witness:
  "fst (Register [''lorem'' \<mapsto> commentParser] ''lorem'' loremParser) =
     Some (DuplicateRegistration ''lorem'') \<and>
   init_lorem [''lorem'' \<mapsto> commentParser] = [''lorem'' \<mapsto> commentParser] \<and>
   init_lorem [''lorem'' \<mapsto> commentParser] ''lorem'' = Some commentParser \<and>
   fst (Register [''comment'' \<mapsto> loremParser] ''comment'' commentParser) =
     Some (DuplicateRegistration ''comment'') \<and>
   init_comment [''comment'' \<mapsto> loremParser] = [''comment'' \<mapsto> loremParser] \<and>
   init_comment [''comment'' \<mapsto> loremParser] ''comment'' = Some loremParser"
  using init_drops_registration_error
    [of "[''lorem'' \<mapsto> commentParser]" commentParser
        "[''comment'' \<mapsto> loremParser]" loremParser]
  by simp

end
